theory Spec2Isabelle
  imports Main "HOL-Library.Word"
begin

unbundle bit_operations_syntax

section \<open>Bytes, payloads and failures\<close>

text \<open>
  A Python 2 \<open>str\<close> is a sequence of bytes. The integers the frame engine computes
  (opcodes, lengths, close codes) are never negative, so they are natural numbers.
\<close>

type_synonym byte = "8 word"
type_synonym bytes = "byte list"

text \<open>
  A payload handed to \<open>send\<close> or \<open>close\<close> is either a byte string (\<open>str\<close>) or a
  text string (\<open>unicode\<close>, a list of code points).
\<close>

datatype message = Str bytes | Unicode "nat list"

text \<open>
  Modelled from the spec: the error taxonomy of \<open>exceptions.py\<close>, which is not part of
  the sources. \<open>ProtocolError\<close> and \<open>FrameTooLargeException\<close> specialise
  \<open>WebSocketError\<close>. The remaining constructors are the built-in exceptions the engine
  can raise; \<open>UnicodeDecodeError\<close> specialises \<open>ValueError\<close>.
\<close>

datatype error =
    WebSocketError
  | ProtocolError
  | FrameTooLargeException
  | ValueError
  | UnicodeDecodeError
  | TypeError
  | RuntimeError
  | AssertionError
  | StructError
  | SocketError
  | KeyError

definition is_WebSocketError :: "error \<Rightarrow> bool" where
  "is_WebSocketError e = (e = WebSocketError \<or> e = ProtocolError \<or> e = FrameTooLargeException)"

definition is_ProtocolError :: "error \<Rightarrow> bool" where
  "is_ProtocolError e = (e = ProtocolError)"

definition OPCODE_TEXT :: nat where "OPCODE_TEXT = 0x01"
definition OPCODE_BINARY :: nat where "OPCODE_BINARY = 0x02"
definition OPCODE_CLOSE :: nat where "OPCODE_CLOSE = 0x08"
definition OPCODE_PING :: nat where "OPCODE_PING = 0x09"
definition OPCODE_PONG :: nat where "OPCODE_PONG = 0x0a"

definition HEADER_RSV_MASK :: byte where
  "HEADER_RSV_MASK = 0x40 OR 0x20 OR 0x10"

subsection \<open>\<open>struct.pack\<close> and \<open>struct.unpack\<close> in network byte order\<close>

text \<open>\<open>be_bytes k n\<close> is the \<open>k\<close>-byte big-endian representation of \<open>n\<close>.\<close>

fun be_bytes :: "nat \<Rightarrow> nat \<Rightarrow> bytes" where
  "be_bytes 0 n = []"
| "be_bytes (Suc k) n = word_of_nat (n div 256 ^ k) # be_bytes k n"

definition be_nat :: "bytes \<Rightarrow> nat" where
  "be_nat bs = foldl (\<lambda>acc b. acc * 256 + unat b) 0 bs"

text \<open>\<open>struct.pack('!H', n)\<close> raises \<open>struct.error\<close> when \<open>n\<close> does not fit 16 bits.\<close>

definition pack_H :: "nat \<Rightarrow> error + bytes" where
  "pack_H n = (if n < 2 ^ 16 then Inr (be_bytes 2 n) else Inl StructError)"

subsection \<open>Payload normalisation\<close>

text \<open>The UTF-8 encoding of one code point.\<close>

definition utf8_char :: "nat \<Rightarrow> bytes" where
  "utf8_char c =
     (if c < 0x80 then [word_of_nat c]
      else if c < 0x800 then
        [word_of_nat (0xC0 + c div 64), word_of_nat (0x80 + c mod 64)]
      else if c < 0x10000 then
        [word_of_nat (0xE0 + c div 4096), word_of_nat (0x80 + c div 64 mod 64),
         word_of_nat (0x80 + c mod 64)]
      else
        [word_of_nat (0xF0 + c div 262144), word_of_nat (0x80 + c div 4096 mod 64),
         word_of_nat (0x80 + c div 64 mod 64), word_of_nat (0x80 + c mod 64)])"

text \<open>
  Modelled from the spec: \<open>encode_bytes\<close> of \<open>websocket.py\<close>, which is not part of the
  sources: a text value becomes its UTF-8 byte encoding, a byte value passes through
  unchanged.
\<close>

fun encode_bytes :: "message \<Rightarrow> bytes" where
  "encode_bytes (Str b) = b"
| "encode_bytes (Unicode u) = concat (map utf8_char u)"

section \<open>Frame headers\<close>

text \<open>
  \<open>parse_header\<close>: two raw bytes to \<open>(fin, opcode, has_mask, length)\<close>. Every
  \<open>raise\<close> of the source is an \<open>Inl\<close> branch, in the source's order.
\<close>

definition parse_header :: "bytes \<Rightarrow> error + (bool \<times> nat \<times> bool \<times> nat)" where
  "parse_header data =
     (if length data \<noteq> 2 then Inl ValueError
      else
        let first_byte = data ! 0; second_byte = data ! 1 in
        if first_byte AND HEADER_RSV_MASK \<noteq> 0 then Inl WebSocketError
        else
          let fin = (first_byte AND 0x80 = 0x80);
              opcode = unat (first_byte AND 0x0f) in
          if opcode > 0x07 \<and> \<not> fin then Inl WebSocketError
          else
            let has_mask = (second_byte AND 0x80 = 0x80);
                len = unat (second_byte AND 0x7f) in
            if opcode > 0x07 \<and> len > 125 then Inl FrameTooLargeException
            else Inr (fin, opcode, has_mask, len))"

text \<open>\<open>chr(i)\<close> raises \<open>ValueError\<close> outside \<open>range(256)\<close>.\<close>

definition chr :: "nat \<Rightarrow> error + byte" where
  "chr i = (if i < 256 then Inr (word_of_nat i) else Inl ValueError)"

text \<open>
  \<open>encode_header\<close>: the header of an outgoing frame. The two \<open>struct.pack\<close> calls
  are guarded by the length tests, so they cannot fail.
\<close>

definition encode_header :: "message \<Rightarrow> nat \<Rightarrow> error + bytes" where
  "encode_header message opcode =
     (case chr (0x80 OR opcode) of
        Inl e \<Rightarrow> Inl e
      | Inr c \<Rightarrow>
          let msg_length = length (encode_bytes message) in
          if msg_length < 126 then Inr ([c] @ [word_of_nat msg_length])
          else if msg_length < 2 ^ 16 then Inr ([c] @ [0x7e] @ be_bytes 2 msg_length)
          else if msg_length < 2 ^ 63 then Inr ([c] @ [0x7f] @ be_bytes 8 msg_length)
          else Inl FrameTooLargeException)"

section \<open>The Hybi connection\<close>

text \<open>
  What the connection does to the outside world, in order: \<open>Write d\<close> is one call of
  the socket write with argument \<open>d\<close>; \<open>Shutdown\<close> is the base-level close.
  \<open>CloseCall c\<close> is a history mark, not a socket effect: it records a call
  \<open>close(c)\<close> that found the socket still attached.
\<close>

datatype event = Write message | Shutdown | CloseCall "nat option"

text \<open>
  The fields of \<open>WebSocketHybi\<close> and of its base class that the frame engine reads
  or writes. \<open>socket\<close> and \<open>reader\<close> say whether \<open>self.socket\<close> and
  \<open>self._read\<close> are still set (\<open>close\<close> replaces both by \<open>None\<close>).
  \<open>incoming\<close> holds the bytes the peer delivers before the end of the stream and
  \<open>write_ok\<close> says whether the socket accepts a write: both belong to the environment.
\<close>

record conn =
  socket :: bool
  reader :: bool
  reading :: bool
  close_code :: "nat option"
  close_message :: "bytes option"
  incoming :: bytes
  write_ok :: bool
  trace :: "event list"

text \<open>
  Modelled from the spec: the bounded read \<open>wrapped_read\<close> of \<open>websocket.py\<close>, which
  is not part of the sources: up to \<open>n\<close> bytes of the stream, fewer (also none) without
  raising when the peer closes first. Calling \<open>self._read\<close> after \<open>close\<close> has
  replaced it by \<open>None\<close> is a \<open>TypeError\<close>.
\<close>

definition wrapped_read :: "nat \<Rightarrow> conn \<Rightarrow> (error + bytes) \<times> conn" where
  "wrapped_read n s =
     (if \<not> reader s then (Inl TypeError, s)
      else (Inr (take n (incoming s)), s\<lparr>incoming := drop n (incoming s)\<rparr>))"

text \<open>
  Modelled from the spec: \<open>WebSocket.close\<close> of the base class, which is not part of
  the sources: it severs the underlying socket unconditionally.
\<close>

definition base_close :: "conn \<Rightarrow> conn" where
  "base_close s = s\<lparr>trace := trace s @ [Shutdown]\<rparr>"

text \<open>
  \<open>__init__\<close>: a connection as the handshake leaves it, over a socket whose peer will
  deliver \<open>bs\<close> and which accepts writes when \<open>ok\<close> holds. Nothing has happened yet.
\<close>

definition hybi_init :: "bytes \<Rightarrow> bool \<Rightarrow> conn" where
  "hybi_init bs ok =
     \<lparr>socket = True, reader = True, reading = False, close_code = None,
      close_message = None, incoming = bs, write_ok = ok, trace = []\<rparr>"

subsection \<open>Reading\<close>

definition read_header :: "conn \<Rightarrow> (error + (bool \<times> nat \<times> bool \<times> nat)) \<times> conn" where
  "read_header s =
     (case wrapped_read 2 s of
        (Inl e, s0) \<Rightarrow> (Inl e, s0)
      | (Inr data0, s0) \<Rightarrow>
          if data0 = [] then (Inl WebSocketError, s0)
          else
            (case parse_header data0 of
               Inl e \<Rightarrow> (Inl e, s0)
             | Inr (fin, opcode, has_mask, len) \<Rightarrow>
                 if \<not> has_mask \<and> len \<noteq> 0 then (Inl WebSocketError, s0)
                 else if len < 126 then (Inr (fin, opcode, has_mask, len), s0)
                 else if len = 126 then
                   (case wrapped_read 2 s0 of
                      (Inl e, s1) \<Rightarrow> (Inl e, s1)
                    | (Inr data1, s1) \<Rightarrow>
                        if length data1 \<noteq> 2 then (Inl WebSocketError, s1)
                        else (Inr (fin, opcode, has_mask, be_nat data1), s1))
                 else if len \<noteq> 127 then (Inl AssertionError, s0)
                 else
                   (case wrapped_read 8 s0 of
                      (Inl e, s1) \<Rightarrow> (Inl e, s1)
                    | (Inr data1, s1) \<Rightarrow>
                        if length data1 \<noteq> 8 then (Inl WebSocketError, s1)
                        else (Inr (fin, opcode, has_mask, be_nat data1), s1))))"

text \<open>Byte \<open>i\<close> of the payload is XORed with byte \<open>i mod 4\<close> of the mask key.\<close>

definition unmask :: "bytes \<Rightarrow> bytes \<Rightarrow> bytes" where
  "unmask key payload = map (\<lambda>i. payload ! i XOR key ! (i mod 4)) [0..<length payload]"

text \<open>
  The \<open>try\<close> block of \<open>_read_frame\<close>. A frame is \<open>(fin, opcode, payload)\<close>; the
  result type keeps Python's \<open>None\<close>, which \<open>_read_message\<close> tests for.
\<close>

definition read_frame_body :: "conn \<Rightarrow> (error + (bool \<times> nat \<times> bytes) option) \<times> conn" where
  "read_frame_body s =
     (case read_header s of
        (Inl e, s1) \<Rightarrow> (Inl e, s1)
      | (Inr (fin, opcode, has_mask, len), s1) \<Rightarrow>
          (case wrapped_read 4 s1 of
             (Inl e, s2) \<Rightarrow> (Inl e, s2)
           | (Inr key, s2) \<Rightarrow>
               if length key \<noteq> 4 then (Inl WebSocketError, s2)
               else if len = 0 then (Inr (Some (fin, opcode, [])), s2)
               else
                 (case wrapped_read len s2 of
                    (Inl e, s3) \<Rightarrow> (Inl e, s3)
                  | (Inr payload, s3) \<Rightarrow>
                      if length payload \<noteq> len then (Inl WebSocketError, s3)
                      else (Inr (Some (fin, opcode, unmask key payload)), s3))))"

text \<open>The reentrancy guard is tested before the \<open>try\<close>; \<open>finally\<close> clears it.\<close>

definition read_frame :: "conn \<Rightarrow> (error + (bool \<times> nat \<times> bytes) option) \<times> conn" where
  "read_frame s =
     (if reading s then (Inl RuntimeError, s)
      else
        (case read_frame_body (s\<lparr>reading := True\<rparr>) of
           (r, s1) \<Rightarrow> (r, s1\<lparr>reading := False\<rparr>)))"

subsection \<open>Writing and closing\<close>

text \<open>
  \<open>header + message\<close> in Python 2: two byte strings are concatenated; a byte string
  added to a text string is first decoded as ASCII, which fails on a byte above 0x7f.
\<close>

definition str_add :: "bytes \<Rightarrow> message \<Rightarrow> error + message" where
  "str_add header m =
     (case m of
        Str b \<Rightarrow> Inr (Str (header @ b))
      | Unicode u \<Rightarrow>
          if list_all (\<lambda>b. b < 0x80) header then Inr (Unicode (map unat header @ u))
          else Inl UnicodeDecodeError)"

text \<open>\<open>close(None)\<close>: the path of \<open>close\<close> that only severs the connection.\<close>

definition close_abruptly :: "conn \<Rightarrow> conn" where
  "close_abruptly s =
     (if \<not> socket s then s
      else base_close (s\<lparr>socket := False, reader := False,
                         trace := trace s @ [CloseCall None]\<rparr>))"

text \<open>
  \<open>send_frame\<close>. The write lock serialises cooperative tasks and has no effect on one
  task. Every exception inside the \<open>try\<close> closes the connection with
  \<open>close(None)\<close> and is raised again.

  Modelled from the spec: the socket write \<open>self._write\<close> of the base class, which is
  not part of the sources: it hands its argument to the socket, which is one \<open>Write\<close>
  event, or fails with a \<open>SocketError\<close> when the socket does not accept the write.
\<close>

definition send_frame :: "message \<Rightarrow> nat \<Rightarrow> conn \<Rightarrow> (error + unit) \<times> conn" where
  "send_frame message opcode s =
     (if \<not> socket s then (Inl WebSocketError, s)
      else
        (case encode_header message opcode of
           Inl e \<Rightarrow> (Inl e, close_abruptly s)
         | Inr header \<Rightarrow>
             (case str_add header message of
                Inl e \<Rightarrow> (Inl e, close_abruptly s)
              | Inr data \<Rightarrow>
                  if write_ok s then (Inr (), s\<lparr>trace := trace s @ [Write data]\<rparr>)
                  else (Inl SocketError, close_abruptly s))))"

text \<open>The local \<open>opcode\<close> of \<open>send\<close>; \<open>binary\<close> is \<open>None\<close> or a truth value.\<close>

definition send_opcode :: "message \<Rightarrow> bool option \<Rightarrow> nat" where
  "send_opcode message binary =
     (let binary' = (case binary of None \<Rightarrow> (case message of Str _ \<Rightarrow> True | Unicode _ \<Rightarrow> False)
                                  | Some b \<Rightarrow> b)
      in if binary' then OPCODE_BINARY else OPCODE_TEXT)"

definition send :: "message \<Rightarrow> bool option \<Rightarrow> conn \<Rightarrow> (error + unit) \<times> conn" where
  "send message binary s = send_frame message (send_opcode message binary) s"

text \<open>
  \<open>close(code, message)\<close>. A falsy code is \<open>None\<close> or \<open>0\<close>. Only a
  \<open>WebSocketError\<close> is swallowed; the \<open>finally\<close> clause runs in every case.
\<close>

definition close :: "nat option \<Rightarrow> message \<Rightarrow> conn \<Rightarrow> (error + unit) \<times> conn" where
  "close code message s =
     (if \<not> socket s then (Inr (), s)
      else
        let s1 = s\<lparr>socket := False, reader := False, trace := trace s @ [CloseCall code]\<rparr> in
        (case code of
           None \<Rightarrow> (Inr (), base_close s1)
         | Some c \<Rightarrow>
             if c = 0 then (Inr (), base_close s1)
             else
               (case pack_H c of
                  Inl e \<Rightarrow> (Inl e, base_close s1)
                | Inr packed \<Rightarrow>
                    (case send_frame (Str (packed @ encode_bytes message)) OPCODE_CLOSE s1 of
                       (Inl e, s2) \<Rightarrow>
                         if is_WebSocketError e then (Inr (), base_close s2)
                         else (Inl e, base_close s2)
                     | (Inr u, s2) \<Rightarrow> (Inr (), base_close s2)))))"

subsection \<open>Reassembling a message\<close>

text \<open>A call of \<open>close\<close> followed by a \<open>raise\<close>: an exception of the call wins.\<close>

definition then_raise :: "(error + unit) \<times> conn \<Rightarrow> error \<Rightarrow> (error + 'a) \<times> conn" where
  "then_raise r e = (case r of (Inl e', s) \<Rightarrow> (Inl e', s) | (Inr u, s) \<Rightarrow> (Inl e, s))"

text \<open>The code after the loop of \<open>_read_message\<close>: the message and its binary flag.\<close>

definition message_result ::
  "nat option \<Rightarrow> bytes \<Rightarrow> conn \<Rightarrow> (error + (bytes \<times> bool) option) \<times> conn" where
  "message_result opcode result s =
     (if opcode = Some OPCODE_TEXT then (Inr (Some (result, False)), s)
      else if opcode = Some OPCODE_BINARY then (Inr (Some (result, True)), s)
      else (Inl AssertionError, s))"

text \<open>
  The end of the close-frame branch: the stored close code decides between the echo
  \<open>close()\<close>, which is \<open>close(1000, '')\<close>, and \<open>close(1002)\<close> with an error.
\<close>

definition close_reply :: "conn \<Rightarrow> (error + (bytes \<times> bool) option) \<times> conn" where
  "close_reply s =
     (if (case close_code s of None \<Rightarrow> True | Some c \<Rightarrow> 1000 \<le> c \<and> c < 5000) then
        (case close (Some 1000) (Str []) s of
           (Inl e, s1) \<Rightarrow> (Inl e, s1)
         | (Inr u, s1) \<Rightarrow> (Inr None, s1))
      else then_raise (close (Some 1002) (Str []) s) WebSocketError)"

text \<open>Every frame that is read takes bytes from the stream; writing takes none.\<close>

lemma read_header_incoming:
  "read_header s = (Inr h, s') \<Longrightarrow> length (incoming s') < length (incoming s)"
  by (auto simp: read_header_def wrapped_read_def parse_header_def Let_def
      split: if_splits prod.splits sum.splits)

lemma read_frame_body_incoming:
  "read_frame_body s = (Inr f, s') \<Longrightarrow> length (incoming s') < length (incoming s)"
  by (auto simp: read_frame_body_def wrapped_read_def
      split: if_splits prod.splits sum.splits dest!: read_header_incoming)

lemma read_frame_incoming:
  "read_frame s = (Inr f, s') \<Longrightarrow> length (incoming s') < length (incoming s)"
  by (auto simp: read_frame_def split: if_splits prod.splits dest!: read_frame_body_incoming)

lemma close_abruptly_incoming: "incoming (close_abruptly s) = incoming s"
  by (simp add: close_abruptly_def base_close_def)

lemma send_frame_incoming:
  "send_frame m opc s = (r, s') \<Longrightarrow> incoming s' = incoming s"
  by (auto simp: send_frame_def close_abruptly_incoming split: if_splits sum.splits)

text \<open>
  The loop of \<open>_read_message\<close>, with its two locals \<open>opcode\<close> and \<open>result\<close> as
  arguments. It ends because the stream is finite and every frame consumes some of it.
\<close>

function read_message_loop ::
  "nat option \<Rightarrow> bytes \<Rightarrow> conn \<Rightarrow> (error + (bytes \<times> bool) option) \<times> conn" where
  "read_message_loop opcode result s =
     (case read_frame s of
        (Inl e, s1) \<Rightarrow> (Inl e, s1)
      | (Inr None, s1) \<Rightarrow>
          if result \<noteq> [] then (Inl WebSocketError, s1) else (Inr None, s1)
      | (Inr (Some (f_fin, f_opcode, f_payload)), s1) \<Rightarrow>
          if f_opcode = OPCODE_TEXT \<or> f_opcode = OPCODE_BINARY then
            (if opcode = None then
               (if f_fin then message_result (Some f_opcode) (result @ f_payload) s1
                else read_message_loop (Some f_opcode) (result @ f_payload) s1)
             else (Inl WebSocketError, s1))
          else if f_opcode = 0 then
            (if opcode = None then then_raise (close (Some 1002) (Str []) s1) WebSocketError
             else if f_fin then message_result opcode (result @ f_payload) s1
             else read_message_loop opcode (result @ f_payload) s1)
          else if f_opcode = OPCODE_CLOSE then
            (if length f_payload \<ge> 2 then
               close_reply (s1\<lparr>close_code := Some (be_nat (take 2 f_payload)),
                               close_message := Some (drop 2 f_payload)\<rparr>)
             else if f_payload \<noteq> [] then (Inl WebSocketError, close_abruptly s1)
             else close_reply s1)
          else if f_opcode = OPCODE_PING then
            (case send_frame (Str f_payload) OPCODE_PONG s1 of
               (Inl e, s2) \<Rightarrow> (Inl e, s2)
             | (Inr u, s2) \<Rightarrow> read_message_loop opcode result s2)
          else if f_opcode = OPCODE_PONG then read_message_loop opcode result s1
          else (Inl WebSocketError, close_abruptly s1))"
  by pat_completeness auto
termination
proof (relation "measure (\<lambda>(opcode, result, s). length (incoming s))")
  show "wf (measure (\<lambda>(opcode, result, s). length (incoming s)))" by simp
qed (auto dest!: read_frame_incoming[OF sym] dest: send_frame_incoming[OF sym])

declare read_message_loop.simps [simp del]

definition read_message :: "conn \<Rightarrow> (error + (bytes \<times> bool) option) \<times> conn" where
  "read_message s = read_message_loop None [] s"

subsection \<open>Receiving\<close>

text \<open>
  Python 2's UTF-8 decoder, one code point at a time: no overlong forms, nothing above
  U+10FFFF, continuation bytes of the form \<open>10xxxxxx\<close>.
\<close>

definition is_cont :: "byte \<Rightarrow> bool" where
  "is_cont b = (b AND 0xC0 = 0x80)"

definition utf8_next :: "bytes \<Rightarrow> (nat \<times> bytes) option" where
  "utf8_next bs =
     (case bs of
        [] \<Rightarrow> None
      | b0 # r0 \<Rightarrow>
          if b0 < 0x80 then Some (unat b0, r0)
          else if 0xC2 \<le> b0 \<and> b0 \<le> 0xDF then
            (case r0 of
               b1 # r1 \<Rightarrow>
                 if is_cont b1 then Some (unat (b0 AND 0x1F) * 64 + unat (b1 AND 0x3F), r1)
                 else None
             | _ \<Rightarrow> None)
          else if 0xE0 \<le> b0 \<and> b0 \<le> 0xEF then
            (case r0 of
               b1 # b2 # r2 \<Rightarrow>
                 if is_cont b1 \<and> is_cont b2 \<and> (if b0 = 0xE0 then 0xA0 \<le> b1 else True) then
                   Some (unat (b0 AND 0x0F) * 4096 + unat (b1 AND 0x3F) * 64
                         + unat (b2 AND 0x3F), r2)
                 else None
             | _ \<Rightarrow> None)
          else if 0xF0 \<le> b0 \<and> b0 \<le> 0xF4 then
            (case r0 of
               b1 # b2 # b3 # r3 \<Rightarrow>
                 if is_cont b1 \<and> is_cont b2 \<and> is_cont b3
                    \<and> (if b0 = 0xF0 then 0x90 \<le> b1 else True)
                    \<and> (if b0 = 0xF4 then b1 \<le> 0x8F else True) then
                   Some (unat (b0 AND 0x07) * 262144 + unat (b1 AND 0x3F) * 4096
                         + unat (b2 AND 0x3F) * 64 + unat (b3 AND 0x3F), r3)
                 else None
             | _ \<Rightarrow> None)
          else None)"

lemma utf8_next_shorter: "utf8_next bs = Some (c, rest) \<Longrightarrow> length rest < length bs"
  by (auto simp: utf8_next_def split: list.splits if_splits)

function utf8_decode :: "bytes \<Rightarrow> nat list option" where
  "utf8_decode bs =
     (if bs = [] then Some []
      else
        (case utf8_next bs of
           None \<Rightarrow> None
         | Some (c, rest) \<Rightarrow> map_option ((#) c) (utf8_decode rest)))"
  by pat_completeness auto
termination
proof (relation "measure length")
  show "wf (measure (length :: bytes \<Rightarrow> nat))" by simp
qed (auto dest: utf8_next_shorter)

declare utf8_decode.simps [simp del]

text \<open>
  \<open>receive\<close>: \<open>None\<close> is the end of the stream, a byte string a binary message, a
  text string a decoded text message.
\<close>

definition receive :: "conn \<Rightarrow> (error + message option) \<times> conn" where
  "receive s =
     (case read_message s of
        (Inl e, s1) \<Rightarrow>
          if is_ProtocolError e then then_raise (close (Some 1002) (Str []) s1) e
          else (Inl e, close_abruptly s1)
      | (Inr None, s1) \<Rightarrow> (Inr None, s1)
      | (Inr (Some (message, is_binary)), s1) \<Rightarrow>
          if is_binary then (Inr (Some (Str message)), s1)
          else
            (case utf8_decode message of
               Some u \<Rightarrow> (Inr (Some (Unicode u)), s1)
             | None \<Rightarrow> then_raise (close (Some 1007) (Str []) s1) UnicodeDecodeError))"

section \<open>The HTTP handler\<close>

subsection \<open>The WebSocket URL of a request\<close>

text \<open>\<open>str.lower\<close> on ASCII letters.\<close>

definition lower_char :: "char \<Rightarrow> char" where
  "lower_char c =
     (let n = (of_char c :: nat) in if 65 \<le> n \<and> n \<le> 90 then char_of (n + 32) else c)"

definition lower :: "string \<Rightarrow> string" where
  "lower s = map lower_char s"

text \<open>
  \<open>urlparse.urlunparse\<close> of the Python 2 standard library, which goes through
  \<open>urlunsplit\<close>; \<open>uses_netloc\<close> is the library's list of schemes, which has neither
  \<open>ws\<close> nor \<open>wss\<close>.
\<close>

definition uses_netloc :: "string list" where
  "uses_netloc =
     [''ftp'', ''http'', ''gopher'', ''nntp'', ''telnet'', ''imap'', ''wais'', ''file'',
      ''mms'', ''https'', ''shttp'', ''snews'', ''prospero'', ''rtsp'', ''rtspu'',
      ''rsync'', [], ''svn'', ''svn+ssh'', ''sftp'', ''nfs'', ''git'', ''git+ssh'']"

definition urlunsplit :: "string \<Rightarrow> string \<Rightarrow> string \<Rightarrow> string \<Rightarrow> string \<Rightarrow> string" where
  "urlunsplit scheme netloc url query fragment =
     (let url1 =
            (if netloc \<noteq> [] \<or> (scheme \<noteq> [] \<and> scheme \<in> set uses_netloc \<and> take 2 url \<noteq> ''//'')
             then ''//'' @ netloc @ (if url \<noteq> [] \<and> take 1 url \<noteq> ''/'' then ''/'' @ url else url)
             else url);
          url2 = (if scheme \<noteq> [] then scheme @ '':'' @ url1 else url1);
          url3 = (if query \<noteq> [] then url2 @ ''?'' @ query else url2)
      in if fragment \<noteq> [] then url3 @ ''#'' @ fragment else url3)"

definition urlunparse ::
  "string \<Rightarrow> string \<Rightarrow> string \<Rightarrow> string \<Rightarrow> string \<Rightarrow> string \<Rightarrow> string" where
  "urlunparse scheme netloc url params query fragment =
     urlunsplit scheme netloc (if params \<noteq> [] then url @ '';'' @ params else url) query fragment"

text \<open>
  \<open>reconstruct_url\<close> reads the CGI variables of the request environment, which are
  strings. \<open>environ[k]\<close> raises \<open>KeyError\<close> on a missing key; \<open>environ.get(k, d)\<close>
  does not.
\<close>

definition reconstruct_url :: "(string \<rightharpoonup> string) \<Rightarrow> error + string" where
  "reconstruct_url environ =
     (case environ ''wsgi.url_scheme'' of
        None \<Rightarrow> Inl KeyError
      | Some url_scheme \<Rightarrow>
          let secure = (lower url_scheme = ''https'');
              scheme = (if secure then ''wss'' else ''ws'');
              host0 = environ ''HTTP_HOST''
          in
          (case (if host0 = None \<or> host0 = Some [] then environ ''SERVER_NAME'' else host0) of
             None \<Rightarrow> Inl KeyError
           | Some host \<Rightarrow>
               (case environ ''SERVER_PORT'' of
                  None \<Rightarrow> Inl KeyError
                | Some server_port \<Rightarrow>
                    let port =
                          (if secure then (if server_port \<noteq> ''443'' then Some server_port else None)
                           else (if server_port \<noteq> ''80'' then Some server_port else None));
                        netloc =
                          (case port of
                             None \<Rightarrow> host
                           | Some p \<Rightarrow> if p \<noteq> [] then host @ '':'' @ p else host);
                        path =
                          (case environ ''SCRIPT_NAME'' of None \<Rightarrow> [] | Some v \<Rightarrow> v)
                          @ (case environ ''PATH_INFO'' of None \<Rightarrow> [] | Some v \<Rightarrow> v)
                    in
                    (case environ ''QUERY_STRING'' of
                       None \<Rightarrow> Inl KeyError
                     | Some query \<Rightarrow> Inr (urlunparse scheme netloc path [] query [])))))"

subsection \<open>Upgrading a request\<close>

text \<open>
  A value of the request environment: a string, or an object such as the connection
  that a successful upgrade stores under \<open>wsgi.websocket\<close>.
\<close>

datatype env_value = Text string | Object

definition truthy :: "env_value option \<Rightarrow> bool" where
  "truthy v = (case v of None \<Rightarrow> False | Some (Text t) \<Rightarrow> t \<noteq> [] | Some Object \<Rightarrow> True)"

text \<open>
  The state of one \<open>WebSocketHandler\<close>: the request environment, the request's HTTP
  version, the response status and headers once a response was started, whether
  \<open>self.websocket\<close> is set, the four response flags and the pending response body.
\<close>

record handler =
  environ :: "string \<rightharpoonup> env_value"
  request_version :: string
  status :: "string option"
  response_headers :: "(string \<times> string) list"
  websocket :: bool
  provided_content_length :: bool
  response_use_chunked :: bool
  close_connection :: bool
  provided_date :: bool
  result :: "string list option"

text \<open>A handler at the start of a request: no response started, no connection.\<close>

definition new_handler :: "(string \<rightharpoonup> env_value) \<Rightarrow> string \<Rightarrow> handler" where
  "new_handler env version =
     \<lparr>environ = env, request_version = version, status = None, response_headers = [],
      websocket = False, provided_content_length = False, response_use_chunked = False,
      close_connection = False, provided_date = False, result = None\<rparr>"

text \<open>
  Modelled from the spec: the response-start mechanism of the host server (the
  \<open>start_response\<close> of the base handler, which is not part of the sources): it
  records the status line and the headers of the response.
\<close>

definition base_start_response :: "string \<Rightarrow> (string \<times> string) list \<Rightarrow> handler \<Rightarrow> handler" where
  "base_start_response st hs h = h\<lparr>status := Some st, response_headers := hs\<rparr>"

definition start_response :: "string \<Rightarrow> (string \<times> string) list \<Rightarrow> handler \<Rightarrow> handler" where
  "start_response st hs h =
     (let h1 = base_start_response st hs h in
      if websocket h1 then
        h1\<lparr>provided_content_length := False, response_use_chunked := False,
           close_connection := True, provided_date := True\<rparr>
      else h1)"

text \<open>
  \<open>upgrade_websocket\<close>. The two upgrade routines of the protocol engines are not
  part of the sources and are parameters: each takes the handler, may change it, and
  returns a response body or nothing. \<open>result or []\<close> keeps a non-empty body.
\<close>

definition upgrade_websocket ::
  "(handler \<Rightarrow> string list option \<times> handler) \<Rightarrow> (handler \<Rightarrow> string list option \<times> handler)
     \<Rightarrow> handler \<Rightarrow> bool \<times> handler" where
  "upgrade_websocket hybi_upgrade hixie_upgrade h =
     (if environ h ''REQUEST_METHOD'' \<noteq> Some (Text ''GET'') then
        (False, start_response ''400 Bad Request'' [] h)
      else if request_version h \<noteq> ''HTTP/1.1'' then
        (False, start_response ''400 Bad Request'' [] h)
      else
        (case (if truthy (environ h ''HTTP_SEC_WEBSOCKET_VERSION'') then Some (hybi_upgrade h)
               else if truthy (environ h ''HTTP_ORIGIN'') then Some (hixie_upgrade h)
               else None) of
           None \<Rightarrow> (False, h)
         | Some (res, h1) \<Rightarrow>
             if environ h1 ''wsgi.websocket'' = None then
               (False, h1\<lparr>result := Some (case res of None \<Rightarrow> [] | Some b \<Rightarrow> b)\<rparr>)
             else (True, h1)))"

section \<open>Properties of the frame headers\<close>

lemma be_bytes_2: "be_bytes 2 n = [word_of_nat (n div 256), word_of_nat n]"
  by (simp add: numeral_2_eq_2)

lemma eight_Suc: "(8::nat) = Suc (Suc (Suc (Suc (Suc (Suc (Suc (Suc 0)))))))"
  by simp

lemma be_bytes_8:
  "be_bytes 8 n =
     [word_of_nat (n div 256 ^ 7), word_of_nat (n div 256 ^ 6), word_of_nat (n div 256 ^ 5),
      word_of_nat (n div 256 ^ 4), word_of_nat (n div 256 ^ 3), word_of_nat (n div 256 ^ 2),
      word_of_nat (n div 256), word_of_nat n]"
  unfolding eight_Suc by simp

lemma low7_mask: "(0x7f :: byte) = mask 7"
  by (simp add: mask_eq_exp_minus_1)

lemma low7_of_nat: "n < 126 \<Longrightarrow> unat ((word_of_nat n :: byte) AND 0x7f) = n"
  unfolding low7_mask
  by (simp add: unsigned_take_bit_eq unsigned_of_nat take_bit_nat_eq_self flip: take_bit_eq_mask)

lemma low7_keeps: "n < 126 \<Longrightarrow> (word_of_nat n :: byte) AND 0x7f = word_of_nat n"
proof -
  assume a: "n < 126"
  have "unat ((word_of_nat n :: byte) AND 0x7f) = unat (word_of_nat n :: byte)"
    using a by (simp add: low7_of_nat unat_of_nat)
  then show ?thesis by (simp only: word_unat_eq_iff)
qed

lemma top_bit_clear: "n < 126 \<Longrightarrow> (word_of_nat n :: byte) AND 0x80 \<noteq> 0x80"
proof -
  assume a: "n < 126"
  have "(word_of_nat n :: byte) AND 0x80 = (word_of_nat n AND 0x7f) AND 0x80"
    using a by (simp add: low7_keeps)
  also have "\<dots> = word_of_nat n AND (0x7f AND 0x80)" by (simp only: and.assoc)
  also have "\<dots> = 0" by simp
  finally show ?thesis by simp
qed

text \<open>
  C6: whenever the first byte \<open>c = chr(0x80 | opcode)\<close> exists, the header of a payload
  of \<open>n\<close> encoded bytes is \<open>c\<close> followed by the literal length byte when
  \<open>n < 126\<close>, by \<open>0x7e\<close> and the 2-byte big-endian length when \<open>n < 2^16\<close>, by
  \<open>0x7f\<close> and the 8-byte big-endian length when \<open>n < 2^63\<close>; a longer payload
  raises \<open>FrameTooLargeException\<close>. The witness evaluates the five boundary lengths
  0, 125, 126, 65535 and 65536.
\<close>

theorem encode_header_length_forms:
  assumes "chr (0x80 OR opcode) = Inr c" and "n = length (encode_bytes message)"
  shows "encode_header message opcode =
     (if n < 126 then Inr [c, word_of_nat n]
      else if n < 2 ^ 16 then Inr [c, 0x7e, word_of_nat (n div 256), word_of_nat n]
      else if n < 2 ^ 63 then
        Inr [c, 0x7f, word_of_nat (n div 256 ^ 7), word_of_nat (n div 256 ^ 6),
             word_of_nat (n div 256 ^ 5), word_of_nat (n div 256 ^ 4),
             word_of_nat (n div 256 ^ 3), word_of_nat (n div 256 ^ 2),
             word_of_nat (n div 256), word_of_nat n]
      else Inl FrameTooLargeException)"
  using assms by (simp add: encode_header_def be_bytes_2 be_bytes_8 Let_def)

theorem encode_header_length_forms_witness:
  "encode_header (Str []) OPCODE_BINARY = Inr [0x82, 0]
   \<and> encode_header (Str (replicate 125 7)) OPCODE_BINARY = Inr [0x82, 125]
   \<and> encode_header (Str (replicate 126 7)) OPCODE_BINARY = Inr [0x82, 0x7e, 0, 126]
   \<and> encode_header (Str (replicate 65535 7)) OPCODE_BINARY = Inr [0x82, 0x7e, 0xff, 0xff]
   \<and> encode_header (Str (replicate 65536 7)) OPCODE_BINARY
       = Inr [0x82, 0x7f, 0, 0, 0, 0, 0, 1, 0, 0]"
proof -
  have c: "chr (0x80 OR OPCODE_BINARY) = Inr 0x82"
    by (simp add: chr_def OPCODE_BINARY_def)
  show ?thesis
    using encode_header_length_forms [OF c, of 0 "Str []"]
      encode_header_length_forms [OF c, of 125 "Str (replicate 125 7)"]
      encode_header_length_forms [OF c, of 126 "Str (replicate 126 7)"]
      encode_header_length_forms [OF c, of 65535 "Str (replicate 65535 7)"]
      encode_header_length_forms [OF c, of 65536 "Str (replicate 65536 7)"]
    by simp
qed

text \<open>
  C5: for the text and the binary opcode and every payload that \<open>encode_header\<close>
  accepts, \<open>parse_header\<close> applied to the first two bytes of the encoded header gives
  fin = true, the same opcode, has-mask = false, and the payload length itself when it is
  below 126 (otherwise the marker 126 or 127 of the extended form).
\<close>

theorem header_round_trip:
  assumes "opcode = OPCODE_TEXT \<or> opcode = OPCODE_BINARY"
    and "encode_header message opcode = Inr header"
  shows "parse_header (take 2 header) =
     Inr (True, opcode, False,
          if length (encode_bytes message) < 126 then length (encode_bytes message)
          else if length (encode_bytes message) < 2 ^ 16 then 126 else 127)"
  using assms
  by (auto simp: encode_header_def chr_def parse_header_def HEADER_RSV_MASK_def Let_def
      OPCODE_TEXT_def OPCODE_BINARY_def low7_of_nat top_bit_clear split: if_splits)

theorem header_round_trip_witness:
  "parse_header (take 2 [0x81, 3]) = Inr (True, OPCODE_TEXT, False, 3)"
proof -
  have e: "encode_header (Str [1, 2, 3]) OPCODE_TEXT = Inr [0x81, 3]"
    by (simp add: encode_header_def chr_def OPCODE_TEXT_def)
  show ?thesis using header_round_trip [OF disjI1 [OF refl] e] by simp
qed

text \<open>
  C3 as stated fails: a header with a reserved bit set, and a control header with the fin
  bit clear, are rejected with the base \<open>WebSocketError\<close>, not with \<open>ProtocolError\<close>.
\<close>

theorem parse_header_violation_counterexample:
  "parse_header [0x91, 0x00] = Inl WebSocketError
   \<and> parse_header [0x91, 0x00] \<noteq> Inl ProtocolError
   \<and> parse_header [0x08, 0x00] = Inl WebSocketError
   \<and> parse_header [0x08, 0x00] \<noteq> Inl ProtocolError"
  by (simp add: parse_header_def HEADER_RSV_MASK_def)

text \<open>
  C3, amended: for every 2-byte header, \<open>parse_header\<close> raises the base
  \<open>WebSocketError\<close> when any reserved bit (mask 0x70) of the first byte is set, and
  likewise when the opcode is a control opcode (above 0x07) and the fin bit is clear.
\<close>

theorem parse_header_violation_kind:
  assumes "b0 AND 0x70 \<noteq> 0 \<or> (unat (b0 AND 0x0f) > 0x07 \<and> b0 AND 0x80 \<noteq> 0x80)"
  shows "parse_header [b0, b1] = Inl WebSocketError"
  using assms by (auto simp: parse_header_def HEADER_RSV_MASK_def Let_def)

theorem parse_header_violation_kind_witness:
  "parse_header [0xC1, 0x85] = Inl WebSocketError \<and> parse_header [0x09, 0x85] = Inl WebSocketError"
  using parse_header_violation_kind [of "0xC1" "0x85"] parse_header_violation_kind [of "0x09" "0x85"]
  by simp

section \<open>Properties of sending and closing\<close>

text \<open>
  C9: \<open>send\<close> hands the payload to \<open>send_frame\<close> with the binary opcode 0x02 when
  \<open>binary\<close> is unspecified and the payload is a byte string, with the text opcode 0x01
  when it is unspecified and the payload is a text string, and otherwise with the binary
  opcode exactly when \<open>binary\<close> is true. On the wire: an open connection that accepts
  the write sends a short byte string in one frame whose first byte is 0x81 when
  \<open>binary\<close> is false and 0x82 when it is true or unspecified.
\<close>

theorem send_opcode_table:
  "send message binary s =
     send_frame message
       (case binary of
          None \<Rightarrow> (case message of Str b \<Rightarrow> OPCODE_BINARY | Unicode u \<Rightarrow> OPCODE_TEXT)
        | Some t \<Rightarrow> if t then OPCODE_BINARY else OPCODE_TEXT) s
   \<and> (socket s \<and> write_ok s \<and> length b < 126 \<longrightarrow>
        send (Str b) binary s =
          (Inr (), s\<lparr>trace := trace s @
             [Write (Str ([if binary = Some False then 0x81 else 0x82, word_of_nat (length b)] @ b))]\<rparr>))"
  by (cases binary)
    (auto simp: send_def send_opcode_def send_frame_def encode_header_def chr_def str_add_def
      OPCODE_BINARY_def OPCODE_TEXT_def split: message.splits)

theorem send_opcode_table_witness:
  "trace (snd (send (Str [104, 105]) None (hybi_init [] True))) = [Write (Str [0x82, 2, 104, 105])]
   \<and> trace (snd (send (Str [104, 105]) (Some False) (hybi_init [] True)))
       = [Write (Str [0x81, 2, 104, 105])]
   \<and> fst (send (Unicode [104, 105]) None (hybi_init [] True))
       = fst (send_frame (Unicode [104, 105]) OPCODE_TEXT (hybi_init [] True))"
  using send_opcode_table [of "Str [104, 105]" None "hybi_init [] True" "[104, 105]", THEN conjunct2]
    send_opcode_table [of "Str [104, 105]" "Some False" "hybi_init [] True" "[104, 105]",
      THEN conjunct2]
    send_opcode_table [of "Unicode [104, 105]" None "hybi_init [] True" "[]", THEN conjunct1]
  by (simp add: hybi_init_def)

text \<open>
  C1: on an open connection \<open>close(code, message)\<close> with a truthy code that fits 16
  bits writes nothing: \<open>close\<close> clears \<open>self.socket\<close> before it calls
  \<open>send_frame\<close>, whose guard then raises the \<open>WebSocketError\<close> that \<open>close\<close>
  swallows. The trace gains the mark of the call and the base-level shutdown, and no
  \<open>Write\<close> between them.
\<close>

theorem close_writes_no_frame:
  assumes "socket s" "c \<noteq> 0" "c < 2 ^ 16"
  shows "close (Some c) message s =
     (Inr (), s\<lparr>socket := False, reader := False,
                 trace := trace s @ [CloseCall (Some c), Shutdown]\<rparr>)"
  using assms
  by (simp add: close_def pack_H_def send_frame_def is_WebSocketError_def base_close_def Let_def)

theorem close_writes_no_frame_witness:
  "trace (snd (close (Some 1000) (Str []) (hybi_init [] True))) = [CloseCall (Some 1000), Shutdown]"
  using close_writes_no_frame [of "hybi_init [] True" 1000 "Str []"]
  by (simp add: hybi_init_def)

section \<open>Properties of reading\<close>

lemma read_frame_one_byte:
  assumes "reader s" "\<not> reading s" "incoming s = [b]"
  shows "read_frame s = (Inl ValueError, s\<lparr>incoming := []\<rparr>)"
  using assms
  by (simp add: read_frame_def read_frame_body_def read_header_def wrapped_read_def
      parse_header_def)

text \<open>
  C10: \<open>parse_header\<close> raises \<open>ValueError\<close> on every input that is not exactly two
  bytes long; so when the peer closes after one byte of a frame header, \<open>receive\<close>
  fails with \<open>ValueError\<close>, which is not a \<open>WebSocketError\<close>.
\<close>

theorem short_header_is_ValueError:
  "(length data \<noteq> 2 \<longrightarrow> parse_header data = Inl ValueError)
   \<and> (reader s \<and> \<not> reading s \<and> incoming s = [b] \<longrightarrow>
        fst (receive s) = Inl ValueError \<and> \<not> is_WebSocketError ValueError)"
  by (simp add: parse_header_def receive_def read_message_def read_message_loop.simps [of None "[]" s]
      read_frame_one_byte is_ProtocolError_def is_WebSocketError_def)

theorem short_header_is_ValueError_witness:
  "parse_header [0x81] = Inl ValueError
   \<and> fst (receive (hybi_init [0x81] True)) = Inl ValueError"
  using short_header_is_ValueError [of "[0x81]" "hybi_init [0x81] True" "0x81"]
  by (simp add: hybi_init_def)

lemma read_frame_eof:
  assumes "reader s" "\<not> reading s" "incoming s = []"
  shows "read_frame s = (Inl WebSocketError, s)"
  using assms
  by (simp add: read_frame_def read_frame_body_def read_header_def wrapped_read_def)

lemma read_frame_not_None: "fst (read_frame s) \<noteq> Inr None"
  by (auto simp: read_frame_def read_frame_body_def split: prod.splits sum.splits if_splits)

lemma read_message_loop_eof:
  assumes "reader s" "\<not> reading s" "incoming s = []"
  shows "read_message_loop opc acc s = (Inl WebSocketError, s)"
  using assms by (simp add: read_message_loop.simps [of _ _ s] read_frame_eof)

text \<open>
  C2 as stated fails: on a fresh connection whose stream has already ended, with no
  message bytes accumulated, the message read raises \<open>WebSocketError\<close> instead of
  returning "no message", and so does \<open>receive\<close>.
\<close>

theorem end_of_stream_counterexample:
  "fst (read_message (hybi_init [] True)) = Inl WebSocketError
   \<and> fst (read_message (hybi_init [] True)) \<noteq> Inr None
   \<and> fst (receive (hybi_init [] True)) = Inl WebSocketError"
proof -
  have "read_message_loop None [] (hybi_init [] True) = (Inl WebSocketError, hybi_init [] True)"
    by (rule read_message_loop_eof) (simp_all add: hybi_init_def)
  then show ?thesis
    by (simp add: read_message_def receive_def is_ProtocolError_def)
qed

text \<open>
  C2, amended: when the stream ends at the read of the two header bytes, the message
  loop raises \<open>WebSocketError\<close> whether or not message bytes were accumulated, and
  \<open>receive\<close> closes the connection abruptly and raises it again. The frame read never
  returns "no frame", so the loop's "no message" return for a missing frame is not
  reached.
\<close>

theorem end_of_stream_raises:
  assumes "reader s" "\<not> reading s" "incoming s = []"
  shows "read_message_loop opc acc s = (Inl WebSocketError, s)
     \<and> receive s = (Inl WebSocketError, close_abruptly s)
     \<and> fst (read_frame t) \<noteq> Inr None"
  using assms
  by (simp add: read_message_loop_eof receive_def read_message_def
      is_ProtocolError_def read_frame_not_None)

theorem end_of_stream_raises_witness:
  "read_message_loop (Some OPCODE_TEXT) [1, 2] (hybi_init [] True)
      = (Inl WebSocketError, hybi_init [] True)
   \<and> fst (receive (hybi_init [] True)) = Inl WebSocketError
   \<and> trace (snd (receive (hybi_init [] True))) = [CloseCall None, Shutdown]"
  using end_of_stream_raises [of "hybi_init [] True" "Some OPCODE_TEXT" "[1, 2]"]
  by (simp add: hybi_init_def close_abruptly_def base_close_def)

section \<open>Failures of receive\<close>

lemma wrapped_read_error: "wrapped_read n s = (Inl e, s') \<Longrightarrow> e = TypeError"
  by (auto simp: wrapped_read_def split: if_splits)

lemma parse_header_error: "parse_header d = Inl e \<Longrightarrow> e \<noteq> ProtocolError"
  by (auto simp: parse_header_def Let_def split: if_splits)

lemma read_header_error: "read_header s = (Inl e, s') \<Longrightarrow> e \<noteq> ProtocolError"
  by (auto simp: read_header_def split: prod.splits sum.splits if_splits
      dest: wrapped_read_error parse_header_error)

lemma read_frame_body_error: "read_frame_body s = (Inl e, s') \<Longrightarrow> e \<noteq> ProtocolError"
  by (auto simp: read_frame_body_def split: prod.splits sum.splits if_splits
      dest: wrapped_read_error read_header_error)

lemma read_frame_error: "read_frame s = (Inl e, s') \<Longrightarrow> e \<noteq> ProtocolError"
  by (auto simp: read_frame_def split: prod.splits if_splits dest: read_frame_body_error)

lemma encode_header_error: "encode_header m opc = Inl e \<Longrightarrow> e \<noteq> ProtocolError"
  by (auto simp: encode_header_def chr_def Let_def split: sum.splits if_splits)

lemma str_add_error: "str_add h m = Inl e \<Longrightarrow> e \<noteq> ProtocolError"
  by (auto simp: str_add_def split: message.splits if_splits)

lemma send_frame_error: "send_frame m opc s = (Inl e, s') \<Longrightarrow> e \<noteq> ProtocolError"
  by (auto simp: send_frame_def split: sum.splits if_splits
      dest: encode_header_error str_add_error)

lemma close_error: "close code m s = (Inl e, s') \<Longrightarrow> e \<noteq> ProtocolError"
  by (auto simp: close_def Let_def pack_H_def is_WebSocketError_def
      split: option.splits sum.splits prod.splits if_splits)

lemma then_raise_error:
  "then_raise (close code m s) e0 = (Inl e, s') \<Longrightarrow> e0 \<noteq> ProtocolError \<Longrightarrow> e \<noteq> ProtocolError"
  by (auto simp: then_raise_def split: prod.splits sum.splits dest: close_error)

lemma close_reply_error: "close_reply s = (Inl e, s') \<Longrightarrow> e \<noteq> ProtocolError"
  by (auto simp: close_reply_def split: prod.splits sum.splits if_splits
      dest: close_error then_raise_error)

lemma message_result_error: "message_result opc acc s = (Inl e, s') \<Longrightarrow> e \<noteq> ProtocolError"
  by (auto simp: message_result_def split: if_splits)

lemma read_message_loop_error:
  "read_message_loop opc acc s = (Inl e, s') \<Longrightarrow> e \<noteq> ProtocolError"
proof (induction "length (incoming s)" arbitrary: opc acc s rule: less_induct)
  case less
  have step1: "e \<noteq> ProtocolError"
    if "read_frame s = (Inr f, s1)" "read_message_loop o2 a2 s1 = (Inl e, s')" for f s1 o2 a2
    using that less.hyps [of s1 o2 a2] read_frame_incoming [of s f s1] by simp
  have step2: "e \<noteq> ProtocolError"
    if "read_frame s = (Inr f, s1)" "send_frame m k s1 = (r, s2)"
      "read_message_loop o2 a2 s2 = (Inl e, s')" for f s1 m k r s2 o2 a2
    using that less.hyps [of s2 o2 a2] read_frame_incoming [of s f s1]
      send_frame_incoming [of m k s1 r s2] by simp
  from less.prems show ?case
    apply (subst (asm) read_message_loop.simps)
    apply (auto split: prod.splits sum.splits option.splits if_splits
        dest: read_frame_error message_result_error then_raise_error close_reply_error
          send_frame_error step1 step2)
    done
qed

lemma close_abruptly_state:
  "close_abruptly s =
     (if socket s then s\<lparr>socket := False, reader := False,
                          trace := trace s @ [CloseCall None, Shutdown]\<rparr>
      else s)"
  by (simp add: close_abruptly_def base_close_def)

lemma close_1007_state:
  "close (Some 1007) (Str []) s =
     (Inr (), if socket s then s\<lparr>socket := False, reader := False,
                                  trace := trace s @ [CloseCall (Some 1007), Shutdown]\<rparr>
              else s)"
  by (simp add: close_def pack_H_def send_frame_def is_WebSocketError_def base_close_def Let_def)

text \<open>
  C4, amended: whenever \<open>receive\<close> propagates a failure, the connection has been
  closed first: the socket is detached. The message read never raises \<open>ProtocolError\<close>
  (header and state-machine violations are raised as plain \<open>WebSocketError\<close>), so
  \<open>receive\<close> never takes its branch for code 1002. If the message read left the
  socket attached, \<open>receive\<close> calls \<open>close(None)\<close>, an abrupt close, after any
  failure of the read, and \<open>close(1007)\<close> after a UTF-8 decode failure of a text message;
  the base-level shutdown follows at once. If the message read had closed the connection
  itself, \<open>receive\<close> changes nothing more.
\<close>

theorem receive_failure_closes:
  assumes "receive s = (Inl e, s')" and "read_message s = (r, s1)"
  shows "\<not> socket s' \<and> e \<noteq> ProtocolError
     \<and> (case r of Inl x \<Rightarrow> e = x | Inr m \<Rightarrow> e = UnicodeDecodeError)
     \<and> (if socket s1
        then trace s' = trace s1 @ [CloseCall (case r of Inl x \<Rightarrow> None | Inr m \<Rightarrow> Some 1007),
                                   Shutdown]
        else s' = s1)"
proof (cases r)
  case (Inl x)
  with assms(2) have "x \<noteq> ProtocolError"
    by (auto simp: read_message_def dest: read_message_loop_error)
  with assms Inl show ?thesis
    by (auto simp: receive_def is_ProtocolError_def close_abruptly_state)
next
  case (Inr m)
  with assms show ?thesis
    by (auto simp: receive_def then_raise_def close_1007_state
        split: option.splits prod.splits if_splits)
qed

lemma read_message_bad_header:
  assumes "reader s" "\<not> reading s" "length (incoming s) \<ge> 2"
    "parse_header (take 2 (incoming s)) = Inl x"
  shows "read_message s = (Inl x, s\<lparr>incoming := drop 2 (incoming s)\<rparr>)"
  using assms
  by (auto simp: read_message_def read_message_loop.simps [of None "[]" s] read_frame_def
      read_frame_body_def read_header_def wrapped_read_def)

lemma reserved_bits_read:
  "read_message (hybi_init [0x91, 0x80] True)
     = (Inl WebSocketError, (hybi_init [0x91, 0x80] True)\<lparr>incoming := []\<rparr>)"
  using read_message_bad_header [of "hybi_init [0x91, 0x80] True" WebSocketError]
  by (simp add: hybi_init_def parse_header_def HEADER_RSV_MASK_def)

lemma unknown_opcode_read:
  "read_message (hybi_init [0x83, 0x80, 0, 0, 0, 0] True)
     = (Inl WebSocketError,
        (hybi_init [] True)\<lparr>socket := False, reader := False,
                             trace := [CloseCall None, Shutdown]\<rparr>)"
  by (simp add: read_message_def read_message_loop.simps [of None "[]"] read_frame_def
      read_frame_body_def read_header_def wrapped_read_def parse_header_def HEADER_RSV_MASK_def
      hybi_init_def OPCODE_TEXT_def OPCODE_BINARY_def OPCODE_CLOSE_def OPCODE_PING_def
      OPCODE_PONG_def close_abruptly_state)

text \<open>
  C4 as stated fails: a frame with the unknown opcode 3, and a frame header with a
  reserved bit set, are protocol violations, yet after either the connection has been
  closed with \<open>close(None)\<close>, not with code 1002.
\<close>

theorem receive_violation_counterexample:
  "fst (receive (hybi_init [0x83, 0x80, 0, 0, 0, 0] True)) = Inl WebSocketError
   \<and> trace (snd (receive (hybi_init [0x83, 0x80, 0, 0, 0, 0] True))) = [CloseCall None, Shutdown]
   \<and> fst (receive (hybi_init [0x91, 0x80] True)) = Inl WebSocketError
   \<and> trace (snd (receive (hybi_init [0x91, 0x80] True))) = [CloseCall None, Shutdown]"
  unfolding receive_def reserved_bits_read unknown_opcode_read
  by (simp add: is_ProtocolError_def close_abruptly_state hybi_init_def)

lemma bad_utf8_read:
  "read_message (hybi_init [0x81, 0x81, 0, 0, 0, 0, 0xFF] True)
     = (Inr (Some ([0xFF], False)), (hybi_init [0x81, 0x81, 0, 0, 0, 0, 0xFF] True)\<lparr>incoming := []\<rparr>)"
  by (simp add: read_message_def read_message_loop.simps [of None "[]"] read_frame_def
      read_frame_body_def read_header_def wrapped_read_def parse_header_def HEADER_RSV_MASK_def
      hybi_init_def unmask_def message_result_def OPCODE_TEXT_def OPCODE_BINARY_def)

lemma bad_utf8_decode: "utf8_decode [0xFF] = None"
  by (simp add: utf8_decode.simps [of "[0xFF]"] utf8_next_def)

lemma bad_utf8_receive:
  "receive (hybi_init [0x81, 0x81, 0, 0, 0, 0, 0xFF] True)
     = (Inl UnicodeDecodeError,
        (hybi_init [] True)\<lparr>socket := False, reader := False,
                             trace := [CloseCall (Some 1007), Shutdown]\<rparr>)"
  unfolding receive_def bad_utf8_read
  by (simp add: bad_utf8_decode then_raise_def close_1007_state hybi_init_def)

lemma reserved_bits_receive:
  "receive (hybi_init [0x91, 0x80] True)
     = (Inl WebSocketError,
        (hybi_init [] True)\<lparr>socket := False, reader := False,
                             trace := [CloseCall None, Shutdown]\<rparr>)"
  unfolding receive_def reserved_bits_read
  by (simp add: is_ProtocolError_def close_abruptly_state hybi_init_def)

theorem receive_failure_closes_witness:
  "\<not> socket (snd (receive (hybi_init [0x81, 0x81, 0, 0, 0, 0, 0xFF] True)))
   \<and> trace (snd (receive (hybi_init [0x81, 0x81, 0, 0, 0, 0, 0xFF] True)))
       = [CloseCall (Some 1007), Shutdown]
   \<and> trace (snd (receive (hybi_init [0x91, 0x80] True))) = [CloseCall None, Shutdown]"
  using receive_failure_closes [OF bad_utf8_receive bad_utf8_read]
    receive_failure_closes [OF reserved_bits_receive reserved_bits_read]
  unfolding bad_utf8_receive reserved_bits_receive
  by (simp add: hybi_init_def)

section \<open>Properties of the HTTP handler\<close>

text \<open>
  C7: when the request method is not GET or the HTTP version is not exactly HTTP/1.1,
  \<open>upgrade_websocket\<close> returns failure, records the status 400 Bad Request, and leaves
  the request environment as it was, so no connection object is installed. This holds
  whatever the two upgrade routines would do.
\<close>

theorem upgrade_rejects_bad_request:
  assumes "environ h ''REQUEST_METHOD'' \<noteq> Some (Text ''GET'') \<or> request_version h \<noteq> ''HTTP/1.1''"
  shows "fst (upgrade_websocket hybi_upgrade hixie_upgrade h) = False
     \<and> status (snd (upgrade_websocket hybi_upgrade hixie_upgrade h)) = Some ''400 Bad Request''
     \<and> environ (snd (upgrade_websocket hybi_upgrade hixie_upgrade h)) = environ h"
  using assms
  by (auto simp: upgrade_websocket_def start_response_def base_start_response_def Let_def)

theorem upgrade_rejects_bad_request_witness:
  "fst (upgrade_websocket (\<lambda>h. (None, h)) (\<lambda>h. (None, h))
          (new_handler [''REQUEST_METHOD'' \<mapsto> Text ''POST'', ''HTTP_ORIGIN'' \<mapsto> Text ''http://a''] ''HTTP/1.1''))
     = False
   \<and> status (snd (upgrade_websocket (\<lambda>h. (None, h)) (\<lambda>h. (None, h))
          (new_handler [''REQUEST_METHOD'' \<mapsto> Text ''GET'', ''HTTP_ORIGIN'' \<mapsto> Text ''http://a''] ''HTTP/1.0'')))
     = Some ''400 Bad Request''
   \<and> environ (snd (upgrade_websocket (\<lambda>h. (None, h)) (\<lambda>h. (None, h))
          (new_handler [''REQUEST_METHOD'' \<mapsto> Text ''GET''] ''HTTP/1.0''))) ''wsgi.websocket'' = None"
  using upgrade_rejects_bad_request [of
      "new_handler [''REQUEST_METHOD'' \<mapsto> Text ''POST'', ''HTTP_ORIGIN'' \<mapsto> Text ''http://a''] ''HTTP/1.1''"
      "\<lambda>h. (None, h)" "\<lambda>h. (None, h)"]
    upgrade_rejects_bad_request [of
      "new_handler [''REQUEST_METHOD'' \<mapsto> Text ''GET'', ''HTTP_ORIGIN'' \<mapsto> Text ''http://a''] ''HTTP/1.0''"
      "\<lambda>h. (None, h)" "\<lambda>h. (None, h)"]
    upgrade_rejects_bad_request [of
      "new_handler [''REQUEST_METHOD'' \<mapsto> Text ''GET''] ''HTTP/1.0''"
      "\<lambda>h. (None, h)" "\<lambda>h. (None, h)"]
  by (simp add: new_handler_def)

lemma urlunparse_netloc:
  assumes "netloc \<noteq> []" "scheme \<noteq> []"
  shows "urlunparse scheme netloc path [] query [] =
     scheme @ ''://'' @ netloc
       @ (if path \<noteq> [] \<and> take 1 path \<noteq> ''/'' then ''/'' @ path else path)
       @ (if query \<noteq> [] then ''?'' @ query else [])"
  using assms by (simp add: urlunparse_def urlunsplit_def Let_def)

text \<open>
  C8 as stated fails: with a \<open>Host\<close> header that is present and empty, the host of the
  URL is the server name, not the header.
\<close>

theorem reconstruct_url_empty_host_counterexample:
  "[''wsgi.url_scheme'' \<mapsto> ''http'', ''HTTP_HOST'' \<mapsto> [], ''SERVER_NAME'' \<mapsto> ''example.com'',
    ''SERVER_PORT'' \<mapsto> ''80'', ''PATH_INFO'' \<mapsto> ''/chat'', ''QUERY_STRING'' \<mapsto> []] ''HTTP_HOST''
     = Some []
   \<and> reconstruct_url
       [''wsgi.url_scheme'' \<mapsto> ''http'', ''HTTP_HOST'' \<mapsto> [], ''SERVER_NAME'' \<mapsto> ''example.com'',
        ''SERVER_PORT'' \<mapsto> ''80'', ''PATH_INFO'' \<mapsto> ''/chat'', ''QUERY_STRING'' \<mapsto> []]
     = Inr ''ws://example.com/chat''"
  by (simp add: reconstruct_url_def lower_def lower_char_def urlunparse_def urlunsplit_def Let_def)

text \<open>
  C8, amended: for every request environment that has the scheme, the server name, the
  server port and the query string, and whose host comes out non-empty, the URL is
  \<open>scheme://host[:port]path[?query]\<close> where the scheme is \<open>wss\<close> exactly when the
  lower-cased request scheme is \<open>https\<close> and \<open>ws\<close> otherwise; the host is the
  \<open>Host\<close> header when it is present and non-empty, else the server name; \<open>:port\<close>
  is appended exactly when the server port is non-empty and differs from the default of
  the scheme (443 for \<open>wss\<close>, 80 for \<open>ws\<close>); the path is the script path followed by
  the path-info, after a \<open>/\<close> when it is non-empty and does not start with one;
  \<open>?query\<close> is appended exactly when the query string is non-empty; nothing follows,
  so there is never a fragment.
\<close>

theorem reconstruct_url_shape:
  assumes "env ''wsgi.url_scheme'' = Some url_scheme"
    and "env ''SERVER_NAME'' = Some name"
    and "env ''SERVER_PORT'' = Some server_port"
    and "env ''QUERY_STRING'' = Some query"
    and "host = (case env ''HTTP_HOST'' of None \<Rightarrow> name | Some h \<Rightarrow> if h = [] then name else h)"
    and "host \<noteq> []"
    and "path = (case env ''SCRIPT_NAME'' of None \<Rightarrow> [] | Some v \<Rightarrow> v)
                @ (case env ''PATH_INFO'' of None \<Rightarrow> [] | Some v \<Rightarrow> v)"
  shows "reconstruct_url env =
     Inr ((if lower url_scheme = ''https'' then ''wss'' else ''ws'') @ ''://'' @ host
          @ (if server_port \<noteq> [] \<and> server_port \<noteq> (if lower url_scheme = ''https'' then ''443'' else ''80'')
             then '':'' @ server_port else [])
          @ (if path \<noteq> [] \<and> take 1 path \<noteq> ''/'' then ''/'' @ path else path)
          @ (if query \<noteq> [] then ''?'' @ query else []))"
proof -
  define scheme where "scheme = (if lower url_scheme = ''https'' then ''wss'' else ''ws'')"
  define portseg where "portseg =
    (if server_port \<noteq> [] \<and> server_port \<noteq> (if lower url_scheme = ''https'' then ''443'' else ''80'')
     then '':'' @ server_port else [])"
  have built: "reconstruct_url env = Inr (urlunparse scheme (host @ portseg) path [] query [])"
    using assms(1-5,7) unfolding scheme_def portseg_def
    by (cases "env ''HTTP_HOST''") (auto simp: reconstruct_url_def Let_def)
  have netloc: "host @ portseg \<noteq> []"
    using assms(6) by simp
  have "scheme \<noteq> []"
    by (simp add: scheme_def)
  with netloc have "urlunparse scheme (host @ portseg) path [] query [] =
     scheme @ ''://'' @ (host @ portseg)
       @ (if path \<noteq> [] \<and> take 1 path \<noteq> ''/'' then ''/'' @ path else path)
       @ (if query \<noteq> [] then ''?'' @ query else [])"
    by (rule urlunparse_netloc)
  with built show ?thesis
    by (simp add: scheme_def portseg_def)
qed

theorem reconstruct_url_shape_witness:
  "reconstruct_url
     [''wsgi.url_scheme'' \<mapsto> ''https'', ''SERVER_NAME'' \<mapsto> ''example.com'',
      ''SERVER_PORT'' \<mapsto> ''443'', ''PATH_INFO'' \<mapsto> ''/chat'', ''QUERY_STRING'' \<mapsto> []]
     = Inr ''wss://example.com/chat''
   \<and> reconstruct_url
     [''wsgi.url_scheme'' \<mapsto> ''https'', ''SERVER_NAME'' \<mapsto> ''example.com'',
      ''SERVER_PORT'' \<mapsto> ''8443'', ''PATH_INFO'' \<mapsto> ''/chat'', ''QUERY_STRING'' \<mapsto> ''a=1'']
     = Inr ''wss://example.com:8443/chat?a=1''
   \<and> reconstruct_url
     [''wsgi.url_scheme'' \<mapsto> ''http'', ''HTTP_HOST'' \<mapsto> ''h.org'', ''SERVER_NAME'' \<mapsto> ''example.com'',
      ''SERVER_PORT'' \<mapsto> ''80'', ''SCRIPT_NAME'' \<mapsto> ''/app'', ''PATH_INFO'' \<mapsto> ''/chat'',
      ''QUERY_STRING'' \<mapsto> []]
     = Inr ''ws://h.org/app/chat''"
  using reconstruct_url_shape [of
      "[''wsgi.url_scheme'' \<mapsto> ''https'', ''SERVER_NAME'' \<mapsto> ''example.com'',
        ''SERVER_PORT'' \<mapsto> ''443'', ''PATH_INFO'' \<mapsto> ''/chat'', ''QUERY_STRING'' \<mapsto> []]"
      "''https''" "''example.com''" "''443''" "[]" "''example.com''" "''/chat''"]
    reconstruct_url_shape [of
      "[''wsgi.url_scheme'' \<mapsto> ''https'', ''SERVER_NAME'' \<mapsto> ''example.com'',
        ''SERVER_PORT'' \<mapsto> ''8443'', ''PATH_INFO'' \<mapsto> ''/chat'', ''QUERY_STRING'' \<mapsto> ''a=1'']"
      "''https''" "''example.com''" "''8443''" "''a=1''" "''example.com''" "''/chat''"]
    reconstruct_url_shape [of
      "[''wsgi.url_scheme'' \<mapsto> ''http'', ''HTTP_HOST'' \<mapsto> ''h.org'', ''SERVER_NAME'' \<mapsto> ''example.com'',
        ''SERVER_PORT'' \<mapsto> ''80'', ''SCRIPT_NAME'' \<mapsto> ''/app'', ''PATH_INFO'' \<mapsto> ''/chat'',
        ''QUERY_STRING'' \<mapsto> []]"
      "''http''" "''example.com''" "''80''" "[]" "''h.org''" "''/app/chat''"]
  by (simp add: lower_def lower_char_def)

end
